theory Spec2Isabelle
  imports Main "HOL-Library.AList"
begin

section \<open>Values\<close>

text \<open>
  The router handles three kinds of Python values: what \<^verbatim>\<open>json.loads\<close> gives
  (None, bool, int, float, str, list, dict), what the table client gives back on a read
  (the same, with every number a \<^verbatim>\<open>Decimal\<close>), and what it builds itself.
  One datatype holds them all. A dict is an association list read with \<open>map_of\<close>.
  \<open>JFloat d\<close> is the double nearest to the decimal \<open>d\<close>: the rounding itself is
  not modelled, only the kind of the number.
\<close>

datatype decimal = Decimal int int

datatype jv =
    JNull
  | JBool bool
  | JInt int
  | JFloat decimal
  | JDecimal decimal
  | JStr string
  | JList "jv list"
  | JObj "(string \<times> jv) list"

type_synonym item = "(string \<times> jv) list"

text \<open>\<^verbatim>\<open>d.get(k, default)\<close>; \<^verbatim>\<open>d.get(k)\<close> is \<open>dict_get d k JNull\<close>.\<close>

definition dict_get :: "item \<Rightarrow> string \<Rightarrow> jv \<Rightarrow> jv" where
  "dict_get d k dflt = (case map_of d k of None \<Rightarrow> dflt | Some v \<Rightarrow> v)"

text \<open>Python's truth value, as \<^verbatim>\<open>or\<close> and \<^verbatim>\<open>if\<close> read it.\<close>

fun truthy :: "jv \<Rightarrow> bool" where
  "truthy JNull = False"
| "truthy (JBool b) = b"
| "truthy (JInt i) = (i \<noteq> 0)"
| "truthy (JFloat (Decimal c x)) = (c \<noteq> 0)"
| "truthy (JDecimal (Decimal c x)) = (c \<noteq> 0)"
| "truthy (JStr s) = (s \<noteq> [])"
| "truthy (JList vs) = (vs \<noteq> [])"
| "truthy (JObj kvs) = (kvs \<noteq> [])"

text \<open>
  \<^verbatim>\<open>json.dumps\<close> raises TypeError on a value that holds a \<^verbatim>\<open>Decimal\<close> at any
  depth; every other value of \<open>jv\<close> serializes.
\<close>

fun has_decimal :: "jv \<Rightarrow> bool" where
  "has_decimal (JDecimal d) = True"
| "has_decimal (JList vs) = list_ex has_decimal vs"
| "has_decimal (JObj kvs) = list_ex (\<lambda>kv. has_decimal (snd kv)) kvs"
| "has_decimal v = False"

text \<open>\<^verbatim>\<open>str(n)\<close> for a natural number, and the value an f-string inserts.\<close>

function str_nat :: "nat \<Rightarrow> string" where
  "str_nat n =
     (if n < 10 then [char_of (48 + n)]
      else str_nat (n div 10) @ [char_of (48 + n mod 10)])"
  by pat_completeness auto
termination
  by (relation "measure id") auto


text \<open>
  What the table client makes of a value it is asked to write, read back: an int is
  kept as the table's number, which every read returns as a \<^verbatim>\<open>Decimal\<close>; a
  float is refused with TypeError (\<open>None\<close>); lists and dicts are converted
  element by element. Any other value comes back as it was written.
\<close>

fun to_table :: "jv \<Rightarrow> jv option" where
  "to_table (JInt i) = Some (JDecimal (Decimal i 0))"
| "to_table (JFloat d) = None"
| "to_table (JList vs) = map_option JList (those (map to_table vs))"
| "to_table (JObj kvs) =
     map_option JObj (those (map (\<lambda>kv. map_option (Pair (fst kv)) (to_table (snd kv))) kvs))"
| "to_table v = Some v"

definition table_item :: "item \<Rightarrow> item option" where
  "table_item it = those (map (\<lambda>kv. map_option (Pair (fst kv)) (to_table (snd kv))) it)"

section \<open>The world outside the router\<close>

text \<open>
  The router keeps no state of its own. Everything it reads and writes lives in two
  tables and behind the gateway's send primitive. \<open>connections\<close> is the connections
  table, a record's key \<^verbatim>\<open>connectionId\<close> kept apart from its other attributes;
  \<open>messages\<close> is the messages table as a log, oldest record first; \<open>calls\<close>
  lists every call the router has issued to the tables and the gateway, in order,
  whether it succeeded or raised.
\<close>

datatype outcome = Delivered | Gone | OtherError

datatype call =
    GetItem string
  | UpdateItem string item
  | DeleteItem string
  | Scan jv
  | PutItem item
  | Query jv jv "jv option"
  | PostToConnection string jv

record world =
  connections :: "(string \<times> item) list"
  messages :: "item list"
  calls :: "call list"

text \<open>
  What one invocation cannot decide: the identifier and the clock readings it draws
  (\<open>utcnow n\<close> is the reading of the \<open>n\<close>-th call to the clock), the outcome of
  each send, which table calls raise, how many records of the connections table one
  scan call reads before it returns (\<open>scan_page\<close>, the length of the first page),
  where in the scan order a new record falls (\<open>new_record_at\<close>), and
  \<^verbatim>\<open>str()\<close> of the values whose formatting is not modelled (floats, decimals,
  lists and dicts).
\<close>

record env =
  uuid4 :: string
  utcnow :: "nat \<Rightarrow> string"
  deliver :: "string \<Rightarrow> jv \<Rightarrow> outcome"
  get_item_raises :: "string \<Rightarrow> bool"
  update_item_raises :: "string \<Rightarrow> item \<Rightarrow> bool"
  delete_item_raises :: "string \<Rightarrow> bool"
  scan_raises :: "jv \<Rightarrow> bool"
  put_item_raises :: "item \<Rightarrow> bool"
  query_raises :: "jv \<Rightarrow> jv \<Rightarrow> jv option \<Rightarrow> bool"
  scan_page :: "(string \<times> item) list \<Rightarrow> nat"
  new_record_at :: "string \<Rightarrow> (string \<times> item) list \<Rightarrow> nat"
  str_of :: "jv \<Rightarrow> string"

definition py_str :: "env \<Rightarrow> jv \<Rightarrow> string" where
  "py_str e v =
     (case v of
        JStr s \<Rightarrow> s
      | JNull \<Rightarrow> ''None''
      | JBool b \<Rightarrow> (if b then ''True'' else ''False'')
      | JInt i \<Rightarrow> (if i < 0 then CHR ''-'' # str_nat (nat (- i)) else str_nat (nat i))
      | _ \<Rightarrow> str_of e v)"

definition record_call :: "call \<Rightarrow> world \<Rightarrow> world" where
  "record_call c w = w\<lparr>calls := calls w @ [c]\<rparr>"

subsection \<open>The connections table\<close>

text \<open>
  The table is a service outside the sources; the router reaches it through
  \<^verbatim>\<open>get_item\<close>, \<^verbatim>\<open>delete_item\<close>, \<^verbatim>\<open>update_item\<close> and \<^verbatim>\<open>scan\<close>
  (the registry's Get, Delete, UpdateFields and ListByChannel of the spec). The list
  \<open>connections\<close> holds the records in the table's scan order, each value as a read
  returns it. \<^verbatim>\<open>update_item\<close> with a SET expression writes the named attributes
  of the record with that key and creates the record when the table has none. Each
  writing operation returns whether it raised beside the new world; the call is
  entered in \<open>calls\<close> with the arguments the router passed.
\<close>

definition set_fields :: "item \<Rightarrow> item \<Rightarrow> item" where
  "set_fields vals it = foldl (\<lambda>acc kv. AList.update (fst kv) (snd kv) acc) it vals"

definition table_update :: "env \<Rightarrow> string \<Rightarrow> item \<Rightarrow> (string \<times> item) list \<Rightarrow> (string \<times> item) list" where
  "table_update e k vals t =
     (case map_of t k of
        None \<Rightarrow> take (new_record_at e k t) t @ (k, vals) # drop (new_record_at e k t) t
      | Some it \<Rightarrow> AList.update k (set_fields vals it) t)"

definition update_item :: "env \<Rightarrow> world \<Rightarrow> string \<Rightarrow> item \<Rightarrow> bool \<times> world" where
  "update_item e w k vals =
     (case table_item vals of
        None \<Rightarrow> (True, record_call (UpdateItem k vals) w)
      | Some written \<Rightarrow>
          if update_item_raises e k vals then (True, record_call (UpdateItem k vals) w)
          else (False, record_call (UpdateItem k vals)
                         (w\<lparr>connections := table_update e k written (connections w)\<rparr>)))"

definition delete_item :: "env \<Rightarrow> world \<Rightarrow> string \<Rightarrow> bool \<times> world" where
  "delete_item e w k =
     (if delete_item_raises e k then (True, record_call (DeleteItem k) w)
      else (False, record_call (DeleteItem k) (w\<lparr>connections := AList.delete k (connections w)\<rparr>)))"

definition get_connection_info :: "env \<Rightarrow> world \<Rightarrow> string \<Rightarrow> item option \<times> world" where
  "get_connection_info e w connection_id =
     (if get_item_raises e connection_id then None else map_of (connections w) connection_id,
      record_call (GetItem connection_id) w)"

text \<open>
  \<^verbatim>\<open>get_channel_connections\<close> issues one \<^verbatim>\<open>scan\<close> and takes its
  \<^verbatim>\<open>Items\<close>; it never asks for a further page. One scan call reads the first
  \<open>scan_page\<close> records of the table and returns those of them that pass the filter.
\<close>

definition in_channel :: "jv \<Rightarrow> string \<times> item \<Rightarrow> bool" where
  "in_channel ch conn = (map_of (snd conn) ''channelId'' = Some ch)"

definition first_page :: "env \<Rightarrow> (string \<times> item) list \<Rightarrow> (string \<times> item) list" where
  "first_page e t = take (scan_page e t) t"

definition get_channel_connections :: "env \<Rightarrow> world \<Rightarrow> jv \<Rightarrow> (string \<times> item) list \<times> world" where
  "get_channel_connections e w channel_id =
     (case to_table channel_id of
        None \<Rightarrow> []
      | Some ch \<Rightarrow>
          if scan_raises e channel_id then []
          else filter (in_channel ch) (first_page e (connections w)),
      record_call (Scan channel_id) w)"

subsection \<open>The messages table\<close>

text \<open>
  \<^verbatim>\<open>messages_table.put_item(Item=message)\<close> appends the record, as a read will
  return it, to the log unless it raises.
\<close>

definition put_item :: "env \<Rightarrow> world \<Rightarrow> item \<Rightarrow> bool \<times> world" where
  "put_item e w it =
     (case table_item it of
        None \<Rightarrow> (True, record_call (PutItem it) w)
      | Some written \<Rightarrow>
          if put_item_raises e it then (True, record_call (PutItem it) w)
          else (False, record_call (PutItem it) (w\<lparr>messages := messages w @ [written]\<rparr>)))"

text \<open>
  Modelled from the spec: the Message Store's \<^verbatim>\<open>QueryRecent\<close>, the table's query
  behind \<^verbatim>\<open>messages_table.query\<close>. The table's key schema and its query are not
  part of the sources. The spec gives a record the key (channelId, sort-order), the
  sort order increasing with insertion, so a record's sort key is its position among
  the records of its channel, which the last key carries as a string. A query returns
  at most \<open>limit\<close> records older than the start key, newest first, and a last key
  exactly when older records remain unread. The spec calls the cursor an opaque token
  and leaves open what a start key does that the store did not hand out: here a value
  of the key's shape for the channel that names a position of the log is served from
  that position, handed out or not, and any other value is rejected, as is a limit that
  is not an integer of at least one.
\<close>

definition channel_range :: "item list \<Rightarrow> jv \<Rightarrow> item list" where
  "channel_range ms ch = filter (\<lambda>m. map_of m ''channelId'' = Some ch) ms"

definition last_key :: "jv \<Rightarrow> nat \<Rightarrow> jv" where
  "last_key ch i = JObj [(''channelId'', ch), (''position'', JStr (str_nat i))]"

definition start_position :: "item list \<Rightarrow> jv \<Rightarrow> jv option \<Rightarrow> nat option" where
  "start_position r ch start =
     (case start of
        None \<Rightarrow> Some (length r)
      | Some key \<Rightarrow> find (\<lambda>i. key = last_key ch i) [0..<Suc (length r)])"

definition query_recent :: "item list \<Rightarrow> jv \<Rightarrow> jv \<Rightarrow> jv option \<Rightarrow> (item list \<times> jv option) option" where
  "query_recent ms ch limit start =
     (case limit of
        JInt n \<Rightarrow>
          if n < 1 then None
          else (case start_position (channel_range ms ch) ch start of
                  None \<Rightarrow> None
                | Some s \<Rightarrow>
                    Some (take (nat n) (rev (take s (channel_range ms ch))),
                          if nat n < s then Some (last_key ch (s - nat n)) else None))
      | _ \<Rightarrow> None)"

text \<open>
  The call of the source: the channel and the start key go through the table client,
  which raises on a float in either.
\<close>

definition written_key :: "jv option \<Rightarrow> jv option option" where
  "written_key start = (case start of None \<Rightarrow> Some None | Some k \<Rightarrow> map_option Some (to_table k))"

definition query :: "env \<Rightarrow> world \<Rightarrow> jv \<Rightarrow> jv \<Rightarrow> jv option \<Rightarrow> (item list \<times> jv option) option \<times> world" where
  "query e w ch limit start =
     (case to_table ch of
        None \<Rightarrow> None
      | Some c \<Rightarrow>
          (case written_key start of
             None \<Rightarrow> None
           | Some s \<Rightarrow>
               if query_raises e ch limit start then None
               else query_recent (messages w) c limit s),
      record_call (Query ch limit start) w)"

subsection \<open>The gateway\<close>

text \<open>
  \<^verbatim>\<open>api_gateway.post_to_connection(ConnectionId=k, Data=json.dumps(data))\<close>, which
  ends delivered, in GoneException or in another exception. When \<^verbatim>\<open>json.dumps\<close>
  raises, no call reaches the gateway and the exception is one other than
  GoneException.
\<close>

definition post_to_connection :: "env \<Rightarrow> world \<Rightarrow> string \<Rightarrow> jv \<Rightarrow> outcome \<times> world" where
  "post_to_connection e w k data =
     (if has_decimal data then (OtherError, w)
      else (deliver e k data, record_call (PostToConnection k data) w))"

section \<open>The router\<close>

datatype response = Response (statusCode: nat) (resp_body: jv)

record history =
  h_messages :: "item list"
  hasMore :: bool
  lastEvaluatedKey :: jv

text \<open>The cleaning loop of \<^verbatim>\<open>get_recent_messages\<close>: one pass over the record's own fields.\<close>

definition clean_msg :: "item \<Rightarrow> item" where
  "clean_msg msg =
     map (\<lambda>kv. (fst kv, case snd kv of JDecimal d \<Rightarrow> JFloat d | v \<Rightarrow> v)) msg"

definition get_recent_messages :: "env \<Rightarrow> world \<Rightarrow> jv \<Rightarrow> jv \<Rightarrow> jv \<Rightarrow> history \<times> world" where
  "get_recent_messages e w channel_id limit last_evaluated_key =
     (let start = (if truthy last_evaluated_key then Some last_evaluated_key else None);
          (response, w1) = query e w channel_id limit start
      in case response of
           None \<Rightarrow> (\<lparr>h_messages = [], hasMore = False, lastEvaluatedKey = JNull\<rparr>, w1)
         | Some (items, lek) \<Rightarrow>
             (\<lparr>h_messages = rev (map clean_msg items),
               hasMore = (lek \<noteq> None),
               lastEvaluatedKey = (case lek of None \<Rightarrow> JNull | Some k \<Rightarrow> k)\<rparr>, w1))"

text \<open>
  The loop of \<^verbatim>\<open>broadcast_to_channel\<close>: a connection whose send reports gone is
  deleted at once, before the next send; a failed delete is passed over.
\<close>

fun broadcast_loop :: "env \<Rightarrow> jv \<Rightarrow> string option \<Rightarrow> (string \<times> item) list \<Rightarrow> world \<Rightarrow> world" where
  "broadcast_loop e message exclude_connection [] w = w"
| "broadcast_loop e message exclude_connection (conn # conns) w =
     (if Some (fst conn) = exclude_connection
      then broadcast_loop e message exclude_connection conns w
      else (let (res, w1) = post_to_connection e w (fst conn) message;
                w2 = (if res = Gone then snd (delete_item e w1 (fst conn)) else w1)
            in broadcast_loop e message exclude_connection conns w2))"

definition broadcast_to_channel :: "env \<Rightarrow> world \<Rightarrow> jv \<Rightarrow> jv \<Rightarrow> string option \<Rightarrow> world" where
  "broadcast_to_channel e w channel_id message exclude_connection =
     (let (conns, w1) = get_channel_connections e w channel_id
      in broadcast_loop e message exclude_connection conns w1)"

text \<open>
  The two loops of \<^verbatim>\<open>handle_message\<close>: the sends, collecting the connections that
  report gone, and then the deletes.
\<close>

fun send_loop :: "env \<Rightarrow> jv \<Rightarrow> (string \<times> item) list \<Rightarrow> string list \<Rightarrow> world \<Rightarrow> string list \<times> world" where
  "send_loop e data [] failed_connections w = (failed_connections, w)"
| "send_loop e data (conn # conns) failed_connections w =
     (let (res, w1) = post_to_connection e w (fst conn) data
      in send_loop e data conns
           (if res = Gone then failed_connections @ [fst conn] else failed_connections) w1)"

fun cleanup_loop :: "env \<Rightarrow> string list \<Rightarrow> world \<Rightarrow> world" where
  "cleanup_loop e [] w = w"
| "cleanup_loop e (conn_id # rest) w = cleanup_loop e rest (snd (delete_item e w conn_id))"

definition message_record :: "env \<Rightarrow> item \<Rightarrow> item \<Rightarrow> item" where
  "message_record e sender_info body =
     [(''messageId'', JStr (uuid4 e)),
      (''channelId'', dict_get body ''channelId'' (dict_get sender_info ''channelId'' (JStr ''main''))),
      (''senderId'', dict_get sender_info ''userId'' (JStr ''unknown'')),
      (''senderEmail'', dict_get sender_info ''userEmail'' (JStr ''unknown'')),
      (''senderRole'', dict_get sender_info ''userRole'' (JStr ''user'')),
      (''content'', dict_get body ''content'' (JStr [])),
      (''type'', dict_get body ''type'' (JStr ''text'')),
      (''timestamp'', JStr (utcnow e 0)),
      (''metadata'', dict_get body ''metadata'' (JObj []))]"

definition connection_not_found :: response where
  "connection_not_found = Response 401 (JObj [(''error'', JStr ''Connection not found'')])"

definition handle_message :: "env \<Rightarrow> world \<Rightarrow> string \<Rightarrow> item \<Rightarrow> response \<times> world" where
  "handle_message e w connection_id body =
     (let (sender_info, w1) = get_connection_info e w connection_id
      in case sender_info of
           None \<Rightarrow> (connection_not_found, w1)
         | Some info \<Rightarrow>
             (let channel_id = dict_get body ''channelId'' (dict_get info ''channelId'' (JStr ''main''));
                  message = message_record e info body;
                  w2 = snd (put_item e w1 message);
                  (channel_connections, w3) = get_channel_connections e w2 channel_id;
                  broadcast_response = JObj [(''action'', JStr ''message''), (''message'', JObj message)];
                  (failed_connections, w4) = send_loop e broadcast_response channel_connections [] w3;
                  w5 = cleanup_loop e failed_connections w4
              in (Response 200 (JObj [(''message'', JStr ''Message sent''),
                                      (''messageId'', JStr (uuid4 e))]), w5)))"

text \<open>
  The handlers below return \<open>None\<close> when an exception leaves them:
  \<^verbatim>\<open>sender_info.get\<close> on None, or the send of \<^verbatim>\<open>handle_ping\<close> failing.
\<close>

definition history_payload :: "string \<Rightarrow> history \<Rightarrow> jv \<Rightarrow> jv" where
  "history_payload action h channel_id =
     JObj [(''action'', JStr action),
           (''messages'', JList (map JObj (h_messages h))),
           (''hasMore'', JBool (hasMore h)),
           (''lastEvaluatedKey'', lastEvaluatedKey h),
           (''channelId'', channel_id)]"

definition notice :: "string \<Rightarrow> item \<Rightarrow> string \<Rightarrow> jv \<Rightarrow> jv" where
  "notice action sender_info k v =
     JObj [(''action'', JStr action),
           (''userId'', dict_get sender_info ''userId'' JNull),
           (''userEmail'', dict_get sender_info ''userEmail'' JNull),
           (k, v)]"

definition handle_join_channel :: "env \<Rightarrow> world \<Rightarrow> string \<Rightarrow> item \<Rightarrow> response option \<times> world" where
  "handle_join_channel e w connection_id body =
     (let channel_id = dict_get body ''channelId'' (JStr ''main'');
          w1 = snd (update_item e w connection_id
                      [(''channelId'', channel_id), (''lastActivity'', JStr (utcnow e 0))]);
          (sender_info, w2) = get_connection_info e w1 connection_id
      in case sender_info of
           None \<Rightarrow> (None, w2)
         | Some info \<Rightarrow>
             (let w3 = broadcast_to_channel e w2 channel_id
                         (notice ''user_joined'' info ''channelId'' channel_id) (Some connection_id);
                  (message_history, w4) = get_recent_messages e w3 channel_id (JInt 50) JNull;
                  w5 = snd (post_to_connection e w4 connection_id
                              (history_payload ''message_history'' message_history channel_id))
              in (Some (Response 200
                          (JObj [(''message'', JStr (''Joined channel '' @ py_str e channel_id))])), w5)))"

definition handle_leave_channel :: "env \<Rightarrow> world \<Rightarrow> string \<Rightarrow> item \<Rightarrow> response option \<times> world" where
  "handle_leave_channel e w connection_id body =
     (let channel_id = dict_get body ''channelId'' (JStr ''main'');
          (sender_info, w1) = get_connection_info e w connection_id
      in case sender_info of
           None \<Rightarrow> (None, w1)
         | Some info \<Rightarrow>
             (let w2 = broadcast_to_channel e w1 channel_id
                         (notice ''user_left'' info ''channelId'' channel_id) (Some connection_id)
              in (Some (Response 200
                          (JObj [(''message'', JStr (''Left channel '' @ py_str e channel_id))])), w2)))"

definition handle_typing_indicator :: "env \<Rightarrow> world \<Rightarrow> string \<Rightarrow> item \<Rightarrow> response option \<times> world" where
  "handle_typing_indicator e w connection_id body =
     (let channel_id = dict_get body ''channelId'' (JStr ''main'');
          is_typing = dict_get body ''isTyping'' (JBool False);
          (sender_info, w1) = get_connection_info e w connection_id
      in case sender_info of
           None \<Rightarrow> (None, w1)
         | Some info \<Rightarrow>
             (let w2 = broadcast_to_channel e w1 channel_id
                         (notice ''typing'' info ''isTyping'' is_typing) (Some connection_id)
              in (Some (Response 200 (JObj [(''message'', JStr ''Typing indicator sent'')])), w2)))"

definition handle_ping :: "env \<Rightarrow> world \<Rightarrow> string \<Rightarrow> response option \<times> world" where
  "handle_ping e w connection_id =
     (let w1 = snd (update_item e w connection_id [(''lastActivity'', JStr (utcnow e 0))]);
          (res, w2) = post_to_connection e w1 connection_id
                        (JObj [(''action'', JStr ''pong''), (''timestamp'', JStr (utcnow e 1))])
      in (if res = Delivered then Some (Response 200 (JObj [(''message'', JStr ''Pong'')])) else None, w2))"

definition handle_load_more_messages :: "env \<Rightarrow> world \<Rightarrow> string \<Rightarrow> item \<Rightarrow> response \<times> world" where
  "handle_load_more_messages e w connection_id body =
     (let channel_id = dict_get body ''channelId'' (JStr ''main'');
          limit = dict_get body ''limit'' (JInt 50);
          last_evaluated_key =
            (if truthy (dict_get body ''cursor'' JNull) then dict_get body ''cursor'' JNull
             else dict_get body ''lastEvaluatedKey'' JNull);
          (sender_info, w1) = get_connection_info e w connection_id
      in case sender_info of
           None \<Rightarrow> (connection_not_found, w1)
         | Some info \<Rightarrow>
             (let (message_history, w2) = get_recent_messages e w1 channel_id limit last_evaluated_key;
                  (res, w3) = post_to_connection e w2 connection_id
                                (history_payload ''message_history_batch'' message_history channel_id)
              in (if res = Delivered
                  then Response 200
                         (JObj [(''message'',
                                 JStr (''Loaded '' @ str_nat (length (h_messages message_history)) @ '' messages''))])
                  else Response 500 (JObj [(''error'', JStr ''Failed to load messages'')]), w3)))"

text \<open>
  \<^verbatim>\<open>json.loads(event['body'])\<close> either raises or gives a value; the parser itself is
  not modelled. \<^verbatim>\<open>body.get\<close> raises on a value that is not a dict. The handler's
  \<^verbatim>\<open>except Exception\<close> turns every exception into the 500 response; what the
  handler did to the world before it raised stays done.
\<close>

datatype frame = Undecodable | Decoded jv

definition failed_to_process :: response where
  "failed_to_process = Response 500 (JObj [(''error'', JStr ''Failed to process message'')])"

definition caught :: "response option \<times> world \<Rightarrow> response \<times> world" where
  "caught rw = (case fst rw of None \<Rightarrow> failed_to_process | Some r \<Rightarrow> r, snd rw)"

definition lambda_handler :: "env \<Rightarrow> world \<Rightarrow> string \<Rightarrow> frame \<Rightarrow> response \<times> world" where
  "lambda_handler e w connection_id fr =
     (case fr of
        Undecodable \<Rightarrow> (failed_to_process, w)
      | Decoded (JObj body) \<Rightarrow>
          (let action = dict_get body ''action'' (JStr ''message'')
           in if action = JStr ''message'' then handle_message e w connection_id body
              else if action = JStr ''join'' then caught (handle_join_channel e w connection_id body)
              else if action = JStr ''leave'' then caught (handle_leave_channel e w connection_id body)
              else if action = JStr ''typing'' then caught (handle_typing_indicator e w connection_id body)
              else if action = JStr ''ping'' then caught (handle_ping e w connection_id)
              else if action = JStr ''load_more_messages''
                   then handle_load_more_messages e w connection_id body
              else (Response 400 (JObj [(''error'', JStr (''Unknown action: '' @ py_str e action))]), w))
      | Decoded _ \<Rightarrow> (failed_to_process, w))"

section \<open>Reading a run\<close>

text \<open>
  What an invocation did is read off the calls it added to the world: the sends that
  reached the gateway, the records it put, the connections it asked to delete.
\<close>

definition new_calls :: "world \<Rightarrow> world \<Rightarrow> call list" where
  "new_calls w w' = drop (length (calls w)) (calls w')"

fun posts :: "call list \<Rightarrow> (string \<times> jv) list" where
  "posts [] = []"
| "posts (PostToConnection k d # cs) = (k, d) # posts cs"
| "posts (c # cs) = posts cs"

fun puts :: "call list \<Rightarrow> item list" where
  "puts [] = []"
| "puts (PutItem it # cs) = it # puts cs"
| "puts (c # cs) = puts cs"


text \<open>
  A send to \<open>k\<close> ends in the record's removal when the payload serializes, the gateway
  reports the connection gone and the delete does not raise.
\<close>

definition reaped :: "env \<Rightarrow> jv \<Rightarrow> string \<Rightarrow> bool" where
  "reaped e d k = (\<not> has_decimal d \<and> deliver e k d = Gone \<and> \<not> delete_item_raises e k)"

text \<open>The calls one round of the loop of \<^verbatim>\<open>broadcast_to_channel\<close> issues for \<open>k\<close>.\<close>

definition attempt :: "env \<Rightarrow> jv \<Rightarrow> string \<Rightarrow> call list" where
  "attempt e d k =
     (if has_decimal d then []
      else PostToConnection k d # (if deliver e k d = Gone then [DeleteItem k] else []))"

section \<open>A client paging through a channel\<close>

text \<open>
  The client of the pagination property: it sends \<open>load_more_messages\<close> frames for one
  channel and one limit, the first without a cursor, each later one with the
  \<open>lastEvaluatedKey\<close> of the payload it received last, and stops at the first payload
  whose \<open>hasMore\<close> is not true. \<open>received\<close> is the payload an invocation delivered
  to the connection, if any. The result lists the pages in the order of the calls;
  \<open>None\<close> means that a call delivered nothing or that the fuel ran out.
\<close>

definition unlist :: "jv \<Rightarrow> jv list" where
  "unlist v = (case v of JList vs \<Rightarrow> vs | _ \<Rightarrow> [])"

definition field :: "jv \<Rightarrow> string \<Rightarrow> jv" where
  "field v k = (case v of JObj kvs \<Rightarrow> dict_get kvs k JNull | _ \<Rightarrow> JNull)"




section \<open>Example worlds\<close>

text \<open>
  The worlds, environments and frames the closed theorems below are evaluated on: three
  registered connections, \<open>c1\<close> and \<open>c3\<close> on \<open>main\<close> and \<open>c2\<close> on \<open>ops\<close>,
  and an environment in which no call raises, every send is delivered, one scan call
  reads the whole table and a new record comes last in the scan order.
\<close>

definition env_ok :: env where
  "env_ok = \<lparr>uuid4 = ''m-1'', utcnow = (\<lambda>n. ''2024-01-01T00:00:00''),
     deliver = (\<lambda>k d. Delivered), get_item_raises = (\<lambda>k. False),
     update_item_raises = (\<lambda>k v. False), delete_item_raises = (\<lambda>k. False),
     scan_raises = (\<lambda>c. False), put_item_raises = (\<lambda>i. False),
     query_raises = (\<lambda>c l s. False), scan_page = length,
     new_record_at = (\<lambda>k t. length t), str_of = (\<lambda>v. ''?'')\<rparr>"


definition env_put_fails :: env where
  "env_put_fails = env_ok\<lparr>put_item_raises := (\<lambda>i. True)\<rparr>"




definition member :: "string \<Rightarrow> string \<Rightarrow> item" where
  "member u ch =
     [(''userId'', JStr u), (''userEmail'', JStr (u @ ''@example.org'')),
      (''userRole'', JStr ''user''), (''channelId'', JStr ch)]"

definition world_ex :: world where
  "world_ex =
     \<lparr>connections = [(''c1'', member ''u1'' ''main''), (''c2'', member ''u2'' ''ops''),
                      (''c3'', member ''u3'' ''main'')],
      messages = [], calls = []\<rparr>"



definition frame_no_action :: frame where
  "frame_no_action = Decoded (JObj [(''channelId'', JStr ''ops'')])"

text \<open>A frame without an action whose metadata holds the float 1.5, and a message whose metadata holds the int 3.\<close>

definition frame_no_action_float :: frame where
  "frame_no_action_float =
     Decoded (JObj [(''channelId'', JStr ''ops''), (''content'', JStr ''hi''),
                    (''metadata'', JObj [(''score'', JFloat (Decimal 15 (- 1)))])])"

definition frame_message_count :: frame where
  "frame_message_count =
     Decoded (JObj [(''action'', JStr ''message''), (''channelId'', JStr ''ops''), (''content'', JStr ''seen''),
                    (''metadata'', JObj [(''count'', JInt 3)])])"


definition frame_join_ops :: frame where
  "frame_join_ops = Decoded (JObj [(''action'', JStr ''join''), (''channelId'', JStr ''ops'')])"

definition frame_load_more_ops :: frame where
  "frame_load_more_ops =
     Decoded (JObj [(''action'', JStr ''load_more_messages''), (''channelId'', JStr ''ops'')])"


definition stored_with_count :: item where
  "stored_with_count =
     [(''messageId'', JStr ''m-0''), (''channelId'', JStr ''ops''), (''senderId'', JStr ''u2''),
      (''senderEmail'', JStr ''u2@example.org''), (''senderRole'', JStr ''user''),
      (''content'', JStr ''seen''), (''type'', JStr ''text''),
      (''timestamp'', JStr ''2023-12-31T23:59:59''),
      (''metadata'', JObj [(''count'', JDecimal (Decimal 3 0))])]"

definition world_with_count :: world where
  "world_with_count = world_ex\<lparr>messages := [stored_with_count]\<rparr>"





section \<open>Effects of the table and gateway calls, and of the loops\<close>

lemma record_call_simps [simp]:
  "connections (record_call c w) = connections w"
  "messages (record_call c w) = messages w"
  "calls (record_call c w) = calls w @ [c]"
  by (simp_all add: record_call_def)

lemma post_to_connection_world [simp]:
  "connections (snd (post_to_connection e w k d)) = connections w"
  "messages (snd (post_to_connection e w k d)) = messages w"
  "calls (snd (post_to_connection e w k d)) =
     calls w @ (if has_decimal d then [] else [PostToConnection k d])"
  by (simp_all add: post_to_connection_def)

lemma post_to_connection_outcome [simp]:
  "fst (post_to_connection e w k d) = (if has_decimal d then OtherError else deliver e k d)"
  by (simp add: post_to_connection_def)

lemma delete_item_world [simp]:
  "connections (snd (delete_item e w k)) =
     (if delete_item_raises e k then connections w else filter (\<lambda>c. fst c \<noteq> k) (connections w))"
  "messages (snd (delete_item e w k)) = messages w"
  "calls (snd (delete_item e w k)) = calls w @ [DeleteItem k]"
  by (auto simp: delete_item_def AList.delete_eq intro: filter_cong)

lemma broadcast_loop_messages [simp]:
  "messages (broadcast_loop e d ex conns w) = messages w"
  by (induction conns arbitrary: w) (simp_all add: case_prod_unfold Let_def)

lemma broadcast_loop_connections:
  "connections (broadcast_loop e d ex conns w) =
     filter (\<lambda>c. \<not> (\<exists>m \<in> set conns. fst m = fst c \<and> Some (fst m) \<noteq> ex \<and> reaped e d (fst m)))
       (connections w)"
proof (induction conns arbitrary: w)
  case Nil
  show ?case by simp
next
  case (Cons conn conns)
  show ?case
    by (auto simp: Cons.IH case_prod_unfold Let_def reaped_def intro!: filter_cong)
qed

lemma broadcast_loop_calls:
  "calls (broadcast_loop e d ex conns w) =
     calls w @ concat (map (\<lambda>c. attempt e d (fst c)) (filter (\<lambda>c. Some (fst c) \<noteq> ex) conns))"
  by (induction conns arbitrary: w) (simp_all add: case_prod_unfold Let_def attempt_def)

lemma send_loop_has_decimal:
  "has_decimal d \<Longrightarrow> send_loop e d conns failed w = (failed, w)"
  by (induction conns arbitrary: failed w) (simp_all add: post_to_connection_def)

lemma send_loop_world [simp]:
  "connections (snd (send_loop e d conns failed w)) = connections w"
  "messages (snd (send_loop e d conns failed w)) = messages w"
  by (induction conns arbitrary: failed w) (simp_all add: case_prod_unfold Let_def)

lemma send_loop_calls:
  "calls (snd (send_loop e d conns failed w)) =
     calls w @ (if has_decimal d then [] else map (\<lambda>c. PostToConnection (fst c) d) conns)"
  by (induction conns arbitrary: failed w) (simp_all add: case_prod_unfold Let_def)

lemma send_loop_failed:
  "fst (send_loop e d conns failed w) =
     failed @ map fst (filter (\<lambda>c. \<not> has_decimal d \<and> deliver e (fst c) d = Gone) conns)"
  by (induction conns arbitrary: failed w) (simp_all add: case_prod_unfold Let_def)

lemma cleanup_loop_world [simp]:
  "messages (cleanup_loop e ks w) = messages w"
  "calls (cleanup_loop e ks w) = calls w @ map DeleteItem ks"
  by (induction ks arbitrary: w) simp_all


lemma posts_append [simp]: "posts (xs @ ys) = posts xs @ posts ys"
  by (induction xs rule: posts.induct) simp_all

lemma puts_append [simp]: "puts (xs @ ys) = puts xs @ puts ys"
  by (induction xs rule: puts.induct) simp_all

lemma posts_map_post [simp]: "posts (map (\<lambda>c. PostToConnection (f c) d) xs) = map (\<lambda>c. (f c, d)) xs"
  by (induction xs) simp_all

lemma posts_map_delete [simp]: "posts (map DeleteItem ks) = []"
  by (induction ks) simp_all

lemma puts_map_post [simp]: "puts (map (\<lambda>c. PostToConnection (f c) d) xs) = []"
  by (induction xs) simp_all

lemma puts_map_delete [simp]: "puts (map DeleteItem ks) = []"
  by (induction ks) simp_all

lemma get_connection_info_simps [simp]:
  "fst (get_connection_info e w k) = (if get_item_raises e k then None else map_of (connections w) k)"
  "snd (get_connection_info e w k) = record_call (GetItem k) w"
  by (simp_all add: get_connection_info_def)

lemma get_channel_connections_snd [simp]:
  "snd (get_channel_connections e w ch) = record_call (Scan ch) w"
  by (simp add: get_channel_connections_def)

lemma get_channel_connections_fst:
  "fst (get_channel_connections e w ch) =
     (case to_table ch of
        None \<Rightarrow> []
      | Some c \<Rightarrow> if scan_raises e ch then [] else filter (in_channel c) (first_page e (connections w)))"
  by (simp add: get_channel_connections_def)

lemma get_channel_connections_same_table:
  "connections w' = connections w \<Longrightarrow>
   fst (get_channel_connections e w' ch) = fst (get_channel_connections e w ch)"
  by (simp add: get_channel_connections_fst split: option.splits)

lemma get_channel_connections_record_call [simp]:
  "fst (get_channel_connections e (record_call c w) ch) = fst (get_channel_connections e w ch)"
  by (rule get_channel_connections_same_table) simp


lemma put_item_world [simp]:
  "connections (snd (put_item e w it)) = connections w"
  "messages (snd (put_item e w it)) =
     (case table_item it of
        None \<Rightarrow> messages w
      | Some written \<Rightarrow> if put_item_raises e it then messages w else messages w @ [written])"
  "calls (snd (put_item e w it)) = calls w @ [PutItem it]"
  by (simp_all add: put_item_def split: option.splits)

lemma get_channel_connections_put [simp]:
  "fst (get_channel_connections e (snd (put_item e' w it)) ch) = fst (get_channel_connections e w ch)"
  by (rule get_channel_connections_same_table) simp

lemma handle_message_unresolved:
  "get_item_raises e cid \<or> map_of (connections w) cid = None \<Longrightarrow>
   handle_message e w cid body = (connection_not_found, record_call (GetItem cid) w)"
  by (auto simp: handle_message_def case_prod_unfold)

lemma handle_message_response:
  "\<not> get_item_raises e cid \<Longrightarrow> map_of (connections w) cid = Some info \<Longrightarrow>
   fst (handle_message e w cid body) =
     Response 200 (JObj [(''message'', JStr ''Message sent''), (''messageId'', JStr (uuid4 e))])"
  by (simp add: handle_message_def case_prod_unfold Let_def)

lemma handle_message_messages:
  "\<not> get_item_raises e cid \<Longrightarrow> map_of (connections w) cid = Some info \<Longrightarrow>
   messages (snd (handle_message e w cid body)) =
     (case table_item (message_record e info body) of
        None \<Rightarrow> messages w
      | Some written \<Rightarrow>
          if put_item_raises e (message_record e info body) then messages w
          else messages w @ [written])"
  by (simp add: handle_message_def case_prod_unfold Let_def split: option.splits)

lemma handle_message_calls:
  "\<not> get_item_raises e cid \<Longrightarrow> map_of (connections w) cid = Some info \<Longrightarrow>
   calls (snd (handle_message e w cid body)) =
     calls w @
     [GetItem cid, PutItem (message_record e info body),
      Scan (dict_get body ''channelId'' (dict_get info ''channelId'' (JStr ''main'')))] @
     (if has_decimal (JObj (message_record e info body)) then []
      else map (\<lambda>c. PostToConnection (fst c)
                  (JObj [(''action'', JStr ''message''), (''message'', JObj (message_record e info body))]))
             (fst (get_channel_connections e w
                (dict_get body ''channelId'' (dict_get info ''channelId'' (JStr ''main'')))))) @
     map DeleteItem
       (map fst (filter (\<lambda>c. \<not> has_decimal (JObj (message_record e info body)) \<and>
          deliver e (fst c) (JObj [(''action'', JStr ''message''), (''message'', JObj (message_record e info body))]) = Gone)
          (fst (get_channel_connections e w
                (dict_get body ''channelId'' (dict_get info ''channelId'' (JStr ''main'')))))))"
  by (simp add: handle_message_def case_prod_unfold Let_def send_loop_calls send_loop_failed)

lemma posts_map_delete_comp [simp]: "posts (map (DeleteItem \<circ> f) ks) = []"
  by (induction ks) simp_all

lemma puts_map_delete_comp [simp]: "puts (map (DeleteItem \<circ> f) ks) = []"
  by (induction ks) simp_all

lemma broadcast_to_channel_messages [simp]:
  "messages (broadcast_to_channel e w ch d ex) = messages w"
  by (simp add: broadcast_to_channel_def case_prod_unfold)

lemma broadcast_to_channel_calls:
  "calls (broadcast_to_channel e w ch d ex) =
     calls w @ Scan ch #
       concat (map (\<lambda>c. attempt e d (fst c))
                 (filter (\<lambda>c. Some (fst c) \<noteq> ex) (fst (get_channel_connections e w ch))))"
  by (simp add: broadcast_to_channel_def case_prod_unfold broadcast_loop_calls)

lemma broadcast_to_channel_connections:
  "connections (broadcast_to_channel e w ch d ex) =
     filter (\<lambda>c. \<not> (\<exists>m \<in> set (fst (get_channel_connections e w ch)).
                       fst m = fst c \<and> Some (fst m) \<noteq> ex \<and> reaped e d (fst m)))
       (connections w)"
  by (simp add: broadcast_to_channel_def case_prod_unfold broadcast_loop_connections)



lemma update_item_world [simp]:
  "connections (snd (update_item e w k vals)) =
     (case table_item vals of
        None \<Rightarrow> connections w
      | Some written \<Rightarrow>
          if update_item_raises e k vals then connections w
          else table_update e k written (connections w))"
  "messages (snd (update_item e w k vals)) = messages w"
  "calls (snd (update_item e w k vals)) = calls w @ [UpdateItem k vals]"
  by (simp_all add: update_item_def split: option.splits)

lemma get_recent_messages_world [simp]:
  "connections (snd (get_recent_messages e w ch lim cur)) = connections w"
  "messages (snd (get_recent_messages e w ch lim cur)) = messages w"
  "calls (snd (get_recent_messages e w ch lim cur)) =
     calls w @ [Query ch lim (if truthy cur then Some cur else None)]"
  by (simp_all add: get_recent_messages_def query_def Let_def split: option.splits prod.splits)

lemma map_of_filter_key:
  "map_of (filter (\<lambda>c. P (fst c)) t) k = (if P k then map_of t k else None)"
  by (induction t) auto

lemma map_of_take_None:
  "map_of t k = None \<Longrightarrow> map_of (take n t) k = None"
  by (auto simp: map_of_eq_None_iff dest: in_set_takeD)

lemma map_of_table_update:
  "map_of (table_update e k vals t) k =
     Some (case map_of t k of None \<Rightarrow> vals | Some it \<Rightarrow> set_fields vals it)"
  by (simp add: table_update_def update_conv' map_add_def map_of_take_None split: option.splits)


lemma table_item_join:
  "table_item [(''channelId'', c), (''lastActivity'', JStr t)] =
     (case to_table c of
        None \<Rightarrow> None
      | Some c' \<Rightarrow> Some [(''channelId'', c'), (''lastActivity'', JStr t)])"
  by (simp add: table_item_def split: option.splits)



lemma broadcast_keeps_excluded:
  "map_of (connections (broadcast_to_channel e w ch d (Some k))) k = map_of (connections w) k"
proof -
  have "map_of (filter (\<lambda>c. (\<lambda>x. \<not> (\<exists>m \<in> set (fst (get_channel_connections e w ch)).
            fst m = x \<and> Some (fst m) \<noteq> Some k \<and> reaped e d (fst m))) (fst c)) (connections w)) k
        = map_of (connections w) k"
    by (subst map_of_filter_key) auto
  then show ?thesis
    by (simp add: broadcast_to_channel_connections)
qed

lemma handle_join_channel_connections:
  "map_of (connections (snd (handle_join_channel e w cid body))) cid =
     map_of (connections (snd (update_item e w cid
        [(''channelId'', dict_get body ''channelId'' (JStr ''main'')),
         (''lastActivity'', JStr (utcnow e 0))]))) cid"
  by (simp add: handle_join_channel_def Let_def case_prod_unfold broadcast_keeps_excluded
      split: option.splits del: update_item_world)

lemma caught_snd [simp]: "snd (caught rw) = snd rw"
  by (simp add: caught_def)

lemma caught_fst [simp]:
  "fst (caught rw) = (case fst rw of None \<Rightarrow> failed_to_process | Some r \<Rightarrow> r)"
  by (simp add: caught_def)

lemma handle_join_channel_response:
  "fst (handle_join_channel e w cid body) =
     (case fst (get_connection_info e (snd (update_item e w cid
              [(''channelId'', dict_get body ''channelId'' (JStr ''main'')),
               (''lastActivity'', JStr (utcnow e 0))])) cid) of
        None \<Rightarrow> None
      | Some info \<Rightarrow> Some (Response 200 (JObj [(''message'',
           JStr (''Joined channel '' @ py_str e (dict_get body ''channelId'' (JStr ''main''))))])))"
  by (simp add: handle_join_channel_def Let_def case_prod_unfold split: option.splits del: update_item_world get_connection_info_simps)

lemma handle_join_channel_first_calls:
  "take 2 (new_calls w (snd (handle_join_channel e w cid body))) =
     [UpdateItem cid [(''channelId'', dict_get body ''channelId'' (JStr ''main'')),
                      (''lastActivity'', JStr (utcnow e 0))],
      GetItem cid]"
  by (simp add: handle_join_channel_def Let_def case_prod_unfold new_calls_def broadcast_to_channel_calls
      split: option.splits)

text \<open>The run of a \<open>message\<close> frame whose sender has a record.\<close>

lemma message_run:
  assumes "\<not> get_item_raises e cid" and "map_of (connections w) cid = Some info"
    and "dict_get body ''action'' (JStr ''message'') = JStr ''message''"
    and "m = message_record e info body"
    and "ch = dict_get body ''channelId'' (dict_get info ''channelId'' (JStr ''main''))"
    and "w' = snd (lambda_handler e w cid (Decoded (JObj body)))"
  shows "fst (lambda_handler e w cid (Decoded (JObj body))) =
           Response 200 (JObj [(''message'', JStr ''Message sent''), (''messageId'', JStr (uuid4 e))])
         \<and> puts (new_calls w w') = [m]
         \<and> messages w' =
             (case table_item m of
                None \<Rightarrow> messages w
              | Some written \<Rightarrow> if put_item_raises e m then messages w else messages w @ [written])
         \<and> posts (new_calls w w') =
             (if has_decimal (JObj m) then []
              else map (\<lambda>c. (fst c, JObj [(''action'', JStr ''message''), (''message'', JObj m)]))
                     (case to_table ch of
                        None \<Rightarrow> []
                      | Some c \<Rightarrow>
                          if scan_raises e ch then []
                          else filter (in_channel c) (first_page e (connections w))))"
proof -
  have h: "lambda_handler e w cid (Decoded (JObj body)) = handle_message e w cid body"
    using assms(3) by (simp add: lambda_handler_def)
  have new: "new_calls w w' =
     [GetItem cid, PutItem m, Scan ch] @
     (if has_decimal (JObj m) then []
      else map (\<lambda>c. PostToConnection (fst c) (JObj [(''action'', JStr ''message''), (''message'', JObj m)]))
             (fst (get_channel_connections e w ch))) @
     map DeleteItem
       (map fst (filter (\<lambda>c. \<not> has_decimal (JObj m) \<and>
          deliver e (fst c) (JObj [(''action'', JStr ''message''), (''message'', JObj m)]) = Gone)
          (fst (get_channel_connections e w ch))))"
    unfolding new_calls_def assms(6) h assms(4,5)
    by (simp add: handle_message_calls [OF assms(1,2)])
  have "puts (new_calls w w') = [m]"
    unfolding new by simp
  moreover have "posts (new_calls w w') =
             (if has_decimal (JObj m) then []
              else map (\<lambda>c. (fst c, JObj [(''action'', JStr ''message''), (''message'', JObj m)]))
                     (fst (get_channel_connections e w ch)))"
    unfolding new by simp
  moreover have "messages w' =
             (case table_item m of
                None \<Rightarrow> messages w
              | Some written \<Rightarrow> if put_item_raises e m then messages w else messages w @ [written])"
    unfolding assms(6) h assms(4)
    by (simp add: handle_message_messages [OF assms(1,2)])
  ultimately show ?thesis
    unfolding h get_channel_connections_fst by (simp add: handle_message_response [OF assms(1,2)])
qed

lemma dict_get_other_key:
  "k \<noteq> k' \<Longrightarrow> dict_get ((k', v) # d) k dflt = dict_get d k dflt"
  by (simp add: dict_get_def)

lemma message_record_ignores_action:
  "message_record e info ((''action'', a) # body) = message_record e info body"
  by (simp add: message_record_def dict_get_other_key)

lemma handle_message_ignores_action:
  "handle_message e w cid ((''action'', a) # body) = handle_message e w cid body"
  unfolding handle_message_def message_record_ignores_action
  by (simp add: dict_get_other_key cong: option.case_cong prod.case_cong)

lemma find_append:
  "find P (xs @ ys) = (case find P xs of None \<Rightarrow> find P ys | Some x \<Rightarrow> Some x)"
  by (induction xs) simp_all

lemma find_index_upt: "find (\<lambda>j. i = j) [0..<m] = (if i < m then Some i else None)"
  by (induction m) (auto simp: find_append)

text \<open>\<open>str_nat\<close> writes different numbers differently.\<close>

lemma str_nat_nonempty: "str_nat n \<noteq> []"
  by (subst str_nat.simps) (simp del: str_nat.simps)

lemma str_nat_last: "of_char (last (str_nat n)) = 48 + n mod 10"
  by (subst str_nat.simps) (simp del: str_nat.simps)

lemma str_nat_butlast: "butlast (str_nat n) = (if n < 10 then [] else str_nat (n div 10))"
  by (subst str_nat.simps) (simp del: str_nat.simps)

lemma str_nat_inject: "str_nat n = str_nat m \<Longrightarrow> n = m"
proof (induction n arbitrary: m rule: less_induct)
  case (less n)
  have "(of_char (last (str_nat n)) :: nat) = of_char (last (str_nat m))"
    using less.prems by (simp del: str_nat.simps)
  then have md: "n mod 10 = m mod 10"
    unfolding str_nat_last by simp
  have bl: "butlast (str_nat n) = butlast (str_nat m)"
    using less.prems by (simp del: str_nat.simps)
  show ?case
  proof (cases "n < 10")
    case True
    then have "m < 10"
      using bl str_nat_nonempty [of "m div 10"] unfolding str_nat_butlast
      by (auto split: if_splits simp del: str_nat.simps)
    with True md show ?thesis
      by simp
  next
    case False
    then have m: "\<not> m < 10"
      using bl str_nat_nonempty [of "n div 10"] unfolding str_nat_butlast
      by (auto split: if_splits simp del: str_nat.simps)
    then have "str_nat (n div 10) = str_nat (m div 10)"
      using bl False unfolding str_nat_butlast by (simp del: str_nat.simps)
    moreover have "n div 10 < n"
      using False by simp
    ultimately have "n div 10 = m div 10"
      by (rule less.IH [rotated])
    with md show ?thesis
      by (metis div_mult_mod_eq)
  qed
qed

lemma last_key_inject [simp]: "last_key ch i = last_key ch j \<longleftrightarrow> i = j"
  by (auto simp: last_key_def dest: str_nat_inject simp del: str_nat.simps)

lemma truthy_last_key [simp]: "truthy (last_key ch i)"
  by (simp add: last_key_def)



lemma start_position_none [simp]: "start_position r ch None = Some (length r)"
  by (simp add: start_position_def)

lemma start_position_last_key [simp]:
  "start_position r ch (Some (last_key ch i)) = (if i \<le> length r then Some i else None)"
  by (simp add: start_position_def find_index_upt less_Suc_eq_le del: upt_Suc)


lemma get_recent_messages_fst:
  "fst (get_recent_messages e w ch lim cur) =
     (case (case to_table ch of
              None \<Rightarrow> None
            | Some c \<Rightarrow>
                (case written_key (if truthy cur then Some cur else None) of
                   None \<Rightarrow> None
                 | Some s \<Rightarrow>
                     if query_raises e ch lim (if truthy cur then Some cur else None) then None
                     else query_recent (messages w) c lim s)) of
        None \<Rightarrow> \<lparr>h_messages = [], hasMore = False, lastEvaluatedKey = JNull\<rparr>
      | Some r \<Rightarrow>
          \<lparr>h_messages = rev (map clean_msg (fst r)),
           hasMore = (snd r \<noteq> None),
           lastEvaluatedKey = (case snd r of None \<Rightarrow> JNull | Some k \<Rightarrow> k)\<rparr>)"
  by (simp add: get_recent_messages_def query_def Let_def split: option.splits prod.splits)




lemma get_recent_messages_record_call [simp]:
  "fst (get_recent_messages e (record_call c w) ch lim cur) = fst (get_recent_messages e w ch lim cur)"
  unfolding get_recent_messages_fst by (simp cong: option.case_cong if_cong)


lemma load_more_world [simp]:
  "messages (snd (handle_load_more_messages e w cid body)) = messages w"
  "connections (snd (handle_load_more_messages e w cid body)) = connections w"
  by (simp_all add: handle_load_more_messages_def Let_def case_prod_unfold split: option.splits)





lemma has_decimal_last_key [simp]: "has_decimal (last_key ch i) = has_decimal ch"
  by (simp add: last_key_def)

lemma field_history_payload [simp]:
  "field (history_payload a h ch) ''hasMore'' = JBool (hasMore h)"
  "field (history_payload a h ch) ''messages'' = JList (map JObj (h_messages h))"
  "field (history_payload a h ch) ''lastEvaluatedKey'' = lastEvaluatedKey h"
  by (simp_all add: field_def history_payload_def dict_get_def)


lemma unlist_JList [simp]: "unlist (JList vs) = vs"
  by (simp add: unlist_def)


subsection \<open>Unfolding the model on a concrete world\<close>

lemmas model_defs =
  lambda_handler_def handle_message_def handle_join_channel_def handle_leave_channel_def
  handle_typing_indicator_def handle_ping_def handle_load_more_messages_def
  broadcast_to_channel_def get_recent_messages_def get_connection_info_def
  get_channel_connections_def put_item_def query_def query_recent_def start_position_def
  channel_range_def last_key_def update_item_def table_update_def set_fields_def delete_item_def
  post_to_connection_def record_call_def message_record_def history_payload_def notice_def
  clean_msg_def caught_def failed_to_process_def connection_not_found_def in_channel_def
  dict_get_def py_str_def new_calls_def table_item_def first_page_def written_key_def Let_def

lemmas example_defs = env_ok_def member_def world_ex_def

subsection \<open>A number written by one frame and read by the next\<close>

text \<open>
  A \<open>message\<close> frame whose metadata holds an int is broadcast with the int; the
  messages table keeps it as a number, and the next read of the channel gives a
  decimal inside \<open>metadata\<close>, on which the send of the page raises.
\<close>

lemma int_metadata_reads_back_as_decimal:
  "map (\<lambda>m. dict_get m ''metadata'' JNull)
     (messages (snd (lambda_handler env_ok world_ex ''c2'' frame_message_count))) =
     [JObj [(''count'', JDecimal (Decimal 3 0))]]
   \<and> map fst (posts (calls (snd (lambda_handler env_ok world_ex ''c2'' frame_message_count)))) = [''c2'']
   \<and> fst (lambda_handler env_ok (snd (lambda_handler env_ok world_ex ''c2'' frame_message_count)) ''c2''
          frame_load_more_ops) =
       Response 500 (JObj [(''error'', JStr ''Failed to load messages'')])"
  by (simp add: model_defs example_defs frame_message_count_def frame_load_more_ops_def)


section \<open>Message frames\<close>




section \<open>A message right after a join\<close>




section \<open>Paging through the history\<close>




section \<open>Broadcasts and stale connections\<close>




section \<open>Frames the router cannot decode\<close>

text \<open>
  C5, as the code has it. A frame whose body does not decode, or decodes to a value
  that is not an object, ends in the 500 response \<open>Failed to process message\<close>: the
  exception is caught by the handler's catch-all, nothing is read and nothing is
  written. The response is never the 400 one.
\<close>

theorem undecodable_frame_is_processing_failure:
  "lambda_handler e w cid Undecodable =
     (Response 500 (JObj [(''error'', JStr ''Failed to process message'')]), w)
   \<and> lambda_handler e w cid (Decoded JNull) = lambda_handler e w cid Undecodable
   \<and> lambda_handler e w cid (Decoded (JBool b)) = lambda_handler e w cid Undecodable
   \<and> lambda_handler e w cid (Decoded (JInt i)) = lambda_handler e w cid Undecodable
   \<and> lambda_handler e w cid (Decoded (JFloat d)) = lambda_handler e w cid Undecodable
   \<and> lambda_handler e w cid (Decoded (JStr s)) = lambda_handler e w cid Undecodable
   \<and> lambda_handler e w cid (Decoded (JList vs)) = lambda_handler e w cid Undecodable"
  by (simp add: lambda_handler_def failed_to_process_def)

text \<open>C5 as stated fails: the outcome of a malformed frame is 500, not 400.\<close>

theorem undecodable_frame_not_client_error:
  "statusCode (fst (lambda_handler env_ok world_ex ''c1'' Undecodable)) = 500
   \<and> statusCode (fst (lambda_handler env_ok world_ex ''c1'' Undecodable)) \<noteq> 400"
  by (simp add: lambda_handler_def failed_to_process_def)

section \<open>Senders the registry does not know\<close>

text \<open>
  C6. A \<open>message\<close> or \<open>load_more_messages\<close> frame from a connection that has no
  record in the connections table is answered with the 401 response. The one call of
  the invocation is the read of that record: no record is put, nothing is sent, and
  both tables are as they were.
\<close>

theorem unknown_sender_is_unauthorized:
  assumes "map_of (connections w) cid = None"
    and "dict_get body ''action'' (JStr ''message'') = JStr ''message''
         \<or> dict_get body ''action'' (JStr ''message'') = JStr ''load_more_messages''"
  shows "lambda_handler e w cid (Decoded (JObj body)) =
           (Response 401 (JObj [(''error'', JStr ''Connection not found'')]),
            w\<lparr>calls := calls w @ [GetItem cid]\<rparr>)"
  using assms
  by (auto simp: lambda_handler_def handle_message_unresolved handle_load_more_messages_def
      connection_not_found_def record_call_def case_prod_unfold Let_def)

theorem unknown_sender_is_unauthorized_witness:
  "lambda_handler env_ok world_ex ''c9''
     (Decoded (JObj [(''action'', JStr ''load_more_messages''), (''channelId'', JStr ''ops'')])) =
     (Response 401 (JObj [(''error'', JStr ''Connection not found'')]),
      world_ex\<lparr>calls := calls world_ex @ [GetItem ''c9'']\<rparr>)"
  using unknown_sender_is_unauthorized
    [of world_ex "''c9''" "[(''action'', JStr ''load_more_messages''), (''channelId'', JStr ''ops'')]" env_ok]
  by (simp add: world_ex_def dict_get_def)

section \<open>Numbers read back from the messages table\<close>

text \<open>
  C7 fails on the code. The cleaning loop of \<^verbatim>\<open>get_recent_messages\<close> converts a
  decimal only when it is the value of one of the record's own fields. A decimal
  inside \<open>metadata\<close> stays a decimal: the page still holds it,
  \<^verbatim>\<open>json.dumps\<close> raises on the payload, \<open>load_more_messages\<close> is answered with
  500 and nothing is sent, and a join sends its notice but no history.
\<close>

theorem nested_decimal_is_not_normalized:
  "h_messages (fst (get_recent_messages env_ok world_with_count (JStr ''ops'') (JInt 50) JNull)) =
     [stored_with_count]
   \<and> has_decimal (JList (map JObj
        (h_messages (fst (get_recent_messages env_ok world_with_count (JStr ''ops'') (JInt 50) JNull)))))
   \<and> lambda_handler env_ok world_with_count ''c2'' frame_load_more_ops =
        (Response 500 (JObj [(''error'', JStr ''Failed to load messages'')]),
         world_with_count\<lparr>calls := [GetItem ''c2'', Query (JStr ''ops'') (JInt 50) None]\<rparr>)
   \<and> map fst (posts (calls (snd (lambda_handler env_ok world_with_count ''c1'' frame_join_ops)))) = [''c2'']"
  by (simp add: model_defs example_defs stored_with_count_def world_with_count_def
      frame_load_more_ops_def frame_join_ops_def)

section \<open>Unknown actions\<close>

text \<open>
  C8. A frame whose \<open>action\<close> is present and is none of the six recognized strings is
  answered with the 400 response whose message is \<open>Unknown action: \<close> followed by the
  action as an f-string prints it (the action itself when it is a string); the world
  is returned as it was, with no call issued to a table or to the gateway.
\<close>

theorem unknown_action_is_client_error:
  assumes "map_of body ''action'' = Some a"
    and "a \<noteq> JStr ''message''" and "a \<noteq> JStr ''join''" and "a \<noteq> JStr ''leave''"
    and "a \<noteq> JStr ''typing''" and "a \<noteq> JStr ''ping''" and "a \<noteq> JStr ''load_more_messages''"
  shows "lambda_handler e w cid (Decoded (JObj body)) =
           (Response 400 (JObj [(''error'', JStr (''Unknown action: '' @ py_str e a))]), w)
         \<and> py_str e (JStr s) = s"
  using assms by (simp add: lambda_handler_def dict_get_def py_str_def)

theorem unknown_action_is_client_error_witness:
  "lambda_handler env_ok world_ex ''c1'' (Decoded (JObj [(''action'', JStr ''dance'')])) =
     (Response 400 (JObj [(''error'', JStr ''Unknown action: dance'')]), world_ex)"
  using unknown_action_is_client_error
    [of "[(''action'', JStr ''dance'')]" "JStr ''dance''" env_ok world_ex "''c1''" "''dance''"]
  by simp

section \<open>Joining from a connection the registry does not know\<close>

text \<open>
  C9, as the code has it. On a \<open>join\<close> frame the update of the sender's record is
  issued first, before the sender is read, and without any check. When the table has
  no record for the connection and the update does not raise (the table client takes
  the channel and the table takes the write), the update creates one holding only
  \<open>channelId\<close>, as the table keeps it, and \<open>lastActivity\<close>; the read that
  follows finds it, so the invocation goes on and ends in the 200 response. The 500
  response is the outcome only when the sender still does not resolve: the update
  raised (then no record exists) or the read raised (then the record was created all
  the same).
\<close>

theorem join_from_unknown_connection:
  assumes "map_of (connections w) cid = None"
    and "dict_get body ''action'' (JStr ''message'') = JStr ''join''"
    and "ch = dict_get body ''channelId'' (JStr ''main'')"
    and "vals = [(''channelId'', ch), (''lastActivity'', JStr (utcnow e 0))]"
    and "r = fst (lambda_handler e w cid (Decoded (JObj body)))"
    and "w' = snd (lambda_handler e w cid (Decoded (JObj body)))"
  shows "take 2 (new_calls w w') = [UpdateItem cid vals, GetItem cid]
         \<and> map_of (connections w') cid =
             (case to_table ch of
                None \<Rightarrow> None
              | Some c \<Rightarrow>
                  if update_item_raises e cid vals then None
                  else Some [(''channelId'', c), (''lastActivity'', JStr (utcnow e 0))])
         \<and> r = (if to_table ch = None \<or> update_item_raises e cid vals \<or> get_item_raises e cid
                 then Response 500 (JObj [(''error'', JStr ''Failed to process message'')])
                 else Response 200 (JObj [(''message'', JStr (''Joined channel '' @ py_str e ch))]))"
proof -
  have h: "lambda_handler e w cid (Decoded (JObj body)) = caught (handle_join_channel e w cid body)"
    using assms(2) by (simp add: lambda_handler_def)
  have c1: "take 2 (new_calls w w') = [UpdateItem cid vals, GetItem cid]"
    unfolding assms(6) h assms(3,4) by (simp add: handle_join_channel_first_calls)
  have c2: "map_of (connections w') cid =
             (case to_table ch of
                None \<Rightarrow> None
              | Some c \<Rightarrow>
                  if update_item_raises e cid vals then None
                  else Some [(''channelId'', c), (''lastActivity'', JStr (utcnow e 0))])"
    unfolding assms(6) h assms(3,4) using assms(1)
    by (simp add: handle_join_channel_connections table_item_join map_of_table_update split: option.splits)
  have c3: "r = (if to_table ch = None \<or> update_item_raises e cid vals \<or> get_item_raises e cid
                 then Response 500 (JObj [(''error'', JStr ''Failed to process message'')])
                 else Response 200 (JObj [(''message'', JStr (''Joined channel '' @ py_str e ch))]))"
    unfolding assms(5) h assms(3,4) using assms(1)
    by (auto simp: handle_join_channel_response table_item_join map_of_table_update failed_to_process_def
        split: option.splits)
  from c1 c2 c3 show ?thesis by blast
qed

text \<open>
  C9 as stated fails: with both tables answering, the join of the unknown connection
  \<open>c9\<close> creates its record and is answered with 200, not 500.
\<close>

theorem join_from_unknown_connection_counterexample:
  "fst (lambda_handler env_ok world_ex ''c9'' frame_join_ops) =
     Response 200 (JObj [(''message'', JStr ''Joined channel ops'')])
   \<and> map_of (connections world_ex) ''c9'' = None
   \<and> map_of (connections (snd (lambda_handler env_ok world_ex ''c9'' frame_join_ops))) ''c9'' =
       Some [(''channelId'', JStr ''ops''), (''lastActivity'', JStr ''2024-01-01T00:00:00'')]"
  by (simp add: model_defs example_defs frame_join_ops_def)

theorem join_from_unknown_connection_witness:
  "statusCode (fst (lambda_handler env_ok world_ex ''c9'' frame_join_ops)) = 200
   \<and> take 2 (new_calls world_ex (snd (lambda_handler env_ok world_ex ''c9'' frame_join_ops))) =
       [UpdateItem ''c9'' [(''channelId'', JStr ''ops''), (''lastActivity'', JStr ''2024-01-01T00:00:00'')],
        GetItem ''c9'']
   \<and> map_of (connections (snd (lambda_handler env_ok world_ex ''c9'' frame_join_ops))) ''c9'' =
       Some [(''channelId'', JStr ''ops''), (''lastActivity'', JStr ''2024-01-01T00:00:00'')]"
  using join_from_unknown_connection
    [of world_ex "''c9''" "[(''action'', JStr ''join''), (''channelId'', JStr ''ops'')]"
        "JStr ''ops''"
        "[(''channelId'', JStr ''ops''), (''lastActivity'', JStr ''2024-01-01T00:00:00'')]" env_ok
        "fst (lambda_handler env_ok world_ex ''c9'' frame_join_ops)"
        "snd (lambda_handler env_ok world_ex ''c9'' frame_join_ops)"]
  by (simp add: world_ex_def env_ok_def dict_get_def frame_join_ops_def py_str_def)

section \<open>Frames without an action\<close>

text \<open>
  C10, as the code has it. A frame whose object has no \<open>action\<close> field is routed
  exactly as the same frame with \<open>action\<close> set to \<open>message\<close>: it is never
  answered with the 400 response. When the sender has a record, the router builds the
  message record with the frame's \<open>content\<close> (the empty string when the frame has
  none) and issues the one put of it; the put is best effort, so the record, as the
  table keeps it, is in the messages table afterwards unless the put raised. The
  payload is sent to the connections that the one scan call lists for the record's
  channel (to none when the scan raises or the payload does not serialize), and the
  answer is 200 either way.
\<close>

theorem frame_without_action_is_message:
  assumes "map_of body ''action'' = None"
    and "\<not> get_item_raises e cid" and "map_of (connections w) cid = Some info"
    and "m = message_record e info body"
    and "ch = dict_get body ''channelId'' (dict_get info ''channelId'' (JStr ''main''))"
    and "w' = snd (lambda_handler e w cid (Decoded (JObj body)))"
  shows "lambda_handler e w cid (Decoded (JObj body)) =
           lambda_handler e w cid (Decoded (JObj ((''action'', JStr ''message'') # body)))
         \<and> fst (lambda_handler e w cid (Decoded (JObj body))) =
             Response 200 (JObj [(''message'', JStr ''Message sent''), (''messageId'', JStr (uuid4 e))])
         \<and> dict_get m ''content'' JNull = dict_get body ''content'' (JStr [])
         \<and> puts (new_calls w w') = [m]
         \<and> messages w' =
             (case table_item m of
                None \<Rightarrow> messages w
              | Some written \<Rightarrow> if put_item_raises e m then messages w else messages w @ [written])
         \<and> posts (new_calls w w') =
             (if has_decimal (JObj m) then []
              else map (\<lambda>c. (fst c, JObj [(''action'', JStr ''message''), (''message'', JObj m)]))
                     (case to_table ch of
                        None \<Rightarrow> []
                      | Some c \<Rightarrow>
                          if scan_raises e ch then []
                          else filter (in_channel c) (first_page e (connections w))))"
proof -
  have dflt: "dict_get body ''action'' (JStr ''message'') = JStr ''message''"
    using assms(1) by (simp add: dict_get_def)
  have same: "lambda_handler e w cid (Decoded (JObj body)) =
           lambda_handler e w cid (Decoded (JObj ((''action'', JStr ''message'') # body)))"
    using dflt by (simp add: lambda_handler_def handle_message_ignores_action dict_get_def)
  have content: "dict_get m ''content'' JNull = dict_get body ''content'' (JStr [])"
    unfolding assms(4) by (simp add: message_record_def dict_get_def)
  from same content message_run [OF assms(2,3) dflt assms(4,5,6)] show ?thesis
    by blast
qed

text \<open>
  C10 as stated fails: the message of a frame without an action is not always
  persisted. The frame of \<open>c1\<close> carries the float 1.5 in its metadata: the table
  client refuses the record, the failure is printed, the payload is still sent to
  \<open>c2\<close> and the answer is 200, with the messages table as empty as before. The same
  holds of a plain frame when the table refuses the write.
\<close>

theorem frame_without_action_not_persisted_counterexample:
  "messages world_ex = []
   \<and> messages (snd (lambda_handler env_ok world_ex ''c1'' frame_no_action_float)) = []
   \<and> statusCode (fst (lambda_handler env_ok world_ex ''c1'' frame_no_action_float)) = 200
   \<and> map fst (posts (calls (snd (lambda_handler env_ok world_ex ''c1'' frame_no_action_float)))) = [''c2'']
   \<and> messages (snd (lambda_handler env_put_fails world_ex ''c1'' frame_no_action)) = []
   \<and> statusCode (fst (lambda_handler env_put_fails world_ex ''c1'' frame_no_action)) = 200
   \<and> map fst (posts (calls (snd (lambda_handler env_put_fails world_ex ''c1'' frame_no_action)))) = [''c2'']"
  by (simp add: model_defs example_defs env_put_fails_def frame_no_action_float_def frame_no_action_def)

text \<open>
  The theorem on a run: the frame of \<open>c1\<close> has a channel and nothing else. It is
  routed as a message: the record, with the empty content, is stored, the payload goes
  to \<open>c2\<close>, the one connection on \<open>ops\<close>, and the answer is 200.
\<close>

theorem frame_without_action_is_message_witness:
  "lambda_handler env_ok world_ex ''c1'' frame_no_action =
     lambda_handler env_ok world_ex ''c1''
       (Decoded (JObj [(''action'', JStr ''message''), (''channelId'', JStr ''ops'')]))
   \<and> fst (lambda_handler env_ok world_ex ''c1'' frame_no_action) =
       Response 200 (JObj [(''message'', JStr ''Message sent''), (''messageId'', JStr ''m-1'')])
   \<and> messages (snd (lambda_handler env_ok world_ex ''c1'' frame_no_action)) =
       [message_record env_ok (member ''u1'' ''main'') [(''channelId'', JStr ''ops'')]]
   \<and> map (\<lambda>m. dict_get m ''content'' JNull)
       (puts (new_calls world_ex (snd (lambda_handler env_ok world_ex ''c1'' frame_no_action)))) = [JStr []]
   \<and> map fst (posts (new_calls world_ex (snd (lambda_handler env_ok world_ex ''c1'' frame_no_action)))) =
       [''c2'']"
proof -
  let ?body = "[(''channelId'', JStr ''ops'')]"
  let ?m = "message_record env_ok (member ''u1'' ''main'') ?body"
  let ?w' = "snd (lambda_handler env_ok world_ex ''c1'' (Decoded (JObj ?body)))"
  have h1: "map_of ?body ''action'' = None"
    by simp
  have h2: "\<not> get_item_raises env_ok ''c1''"
    by (simp add: env_ok_def)
  have h3: "map_of (connections world_ex) ''c1'' = Some (member ''u1'' ''main'')"
    by (simp add: world_ex_def)
  note t = frame_without_action_is_message [OF h1 h2 h3 refl refl refl]
  have env: "uuid4 env_ok = ''m-1''" "\<not> put_item_raises env_ok i" "\<not> scan_raises env_ok c" for i c
    by (simp_all add: env_ok_def)
  have stored: "table_item ?m = Some ?m"
    by (simp add: table_item_def message_record_def dict_get_def member_def)
  have plain: "\<not> has_decimal (JObj ?m)"
    by (simp add: message_record_def dict_get_def member_def)
  have ch: "dict_get ?body ''channelId'' (dict_get (member ''u1'' ''main'') ''channelId'' (JStr ''main'')) =
      JStr ''ops''"
    by (simp add: dict_get_def)
  have page: "filter (in_channel (JStr ''ops'')) (first_page env_ok (connections world_ex)) =
      [(''c2'', member ''u2'' ''ops'')]"
    by (simp add: first_page_def env_ok_def world_ex_def in_channel_def member_def)
  from t have a: "lambda_handler env_ok world_ex ''c1'' (Decoded (JObj ?body)) =
     lambda_handler env_ok world_ex ''c1''
       (Decoded (JObj [(''action'', JStr ''message''), (''channelId'', JStr ''ops'')]))"
    by blast
  from t have "fst (lambda_handler env_ok world_ex ''c1'' (Decoded (JObj ?body))) =
       Response 200 (JObj [(''message'', JStr ''Message sent''), (''messageId'', JStr (uuid4 env_ok))])"
    by blast
  then have b: "fst (lambda_handler env_ok world_ex ''c1'' (Decoded (JObj ?body))) =
       Response 200 (JObj [(''message'', JStr ''Message sent''), (''messageId'', JStr ''m-1'')])"
    unfolding env .
  from t have "messages ?w' =
      (case table_item ?m of
         None \<Rightarrow> messages world_ex
       | Some written \<Rightarrow> if put_item_raises env_ok ?m then messages world_ex else messages world_ex @ [written])"
    by blast
  then have c: "messages ?w' = [?m]"
    unfolding stored by (simp add: env world_ex_def)
  from t have p: "puts (new_calls world_ex ?w') = [?m]"
    by blast
  from t have "dict_get ?m ''content'' JNull = dict_get ?body ''content'' (JStr [])"
    by blast
  then have d: "map (\<lambda>m. dict_get m ''content'' JNull) (puts (new_calls world_ex ?w')) = [JStr []]"
    unfolding p by (simp add: dict_get_def)
  from t have "posts (new_calls world_ex ?w') =
      (if has_decimal (JObj ?m) then []
       else map (\<lambda>c. (fst c, JObj [(''action'', JStr ''message''), (''message'', JObj ?m)]))
              (case to_table (dict_get ?body ''channelId''
                     (dict_get (member ''u1'' ''main'') ''channelId'' (JStr ''main''))) of
                 None \<Rightarrow> []
               | Some c \<Rightarrow>
                   if scan_raises env_ok (dict_get ?body ''channelId''
                        (dict_get (member ''u1'' ''main'') ''channelId'' (JStr ''main''))) then []
                   else filter (in_channel c) (first_page env_ok (connections world_ex))))"
    by blast
  then have f: "map fst (posts (new_calls world_ex ?w')) = [''c2'']"
    unfolding ch using plain by (simp add: env page)
  from a b c d f show ?thesis
    unfolding frame_no_action_def by blast
qed

end
